theory Spec2Isabelle
  imports Complex_Main "HOL-Library.Sublist"
begin

section \<open>Strings as Python uses them\<close>

text \<open>
  Python strings are modelled as \<^typ>\<open>string\<close>. Only the string operations that the
  synchronisation code calls are embedded: \<open>str.lower\<close>, \<open>str.strip\<close>, \<open>str.replace(' ', '')\<close>,
  the substring test \<open>sep in s\<close>, \<open>s.split(sep)[0]\<close> and \<open>s.split(sep, 1)[1]\<close>.
  A character is a code point below 256, so the strings are the Latin-1 strings. On these
  \<open>str.lower\<close> maps \<open>A\<close> to \<open>Z\<close> (65 to 90) and the code points 192 to 222 other than 215
  (the multiplication sign) to the code point 32 above, and leaves every other one as it is.
\<close>

datatype error = ValueError | AttributeError | KeyError | ZeroDivisionError | TypeError

definition lower_char :: "char \<Rightarrow> char" where
  "lower_char c =
     (let n = (of_char c :: nat)
      in if (65 \<le> n \<and> n \<le> 90) \<or> (192 \<le> n \<and> n \<le> 222 \<and> n \<noteq> 215)
         then char_of (n + 32) else c)"

definition lower :: "string \<Rightarrow> string" where
  "lower s = map lower_char s"

definition is_space :: "char \<Rightarrow> bool" where
  "is_space c = (c \<in> set [CHR '' '', CHR 0x09, CHR 0x0A, CHR 0x0B, CHR 0x0C, CHR 0x0D,
                           CHR 0x1C, CHR 0x1D, CHR 0x1E, CHR 0x1F, CHR 0x85, CHR 0xA0])"

definition strip :: "string \<Rightarrow> string" where
  "strip s = rev (dropWhile is_space (rev (dropWhile is_space s)))"

text \<open>\<open>s.replace(' ', '')\<close>: every space character is dropped.\<close>

definition remove_spaces :: "string \<Rightarrow> string" where
  "remove_spaces s = filter (\<lambda>c. c \<noteq> CHR '' '') s"

text \<open>
  \<open>partition_first sep s\<close> cuts \<open>s\<close> at the leftmost occurrence of \<open>sep\<close>: the text before
  it and the text after it. It is \<open>None\<close> exactly when \<open>sep in s\<close> is false in Python. The empty
  separator occurs at position 0 of every string (\<open>'' in s\<close> is true in Python); the callers
  below raise \<open>ValueError\<close> for it, as \<open>str.split\<close> does.
\<close>

fun partition_first :: "string \<Rightarrow> string \<Rightarrow> (string \<times> string) option" where
  "partition_first sep [] = (if sep = [] then Some ([], []) else None)"
| "partition_first sep (c # cs) =
     (if prefix sep (c # cs) then Some ([], drop (length sep) (c # cs))
      else map_option (\<lambda>(a, b). (c # a, b)) (partition_first sep cs))"

text \<open>
  \<open>re.search(r'\(([^()]+)\)(?:\s*\(\d+\))?', s)\<close>, group 1: the leftmost opening parenthesis
  that is followed by a non-empty run of characters other than parentheses and then by a
  closing parenthesis; the result is that run. The optional counter suffix of the pattern
  changes neither whether the pattern matches nor group 1.
\<close>

definition not_paren :: "char \<Rightarrow> bool" where
  "not_paren c = (c \<noteq> CHR ''('' \<and> c \<noteq> CHR '')'')"

fun paren_search :: "string \<Rightarrow> string option" where
  "paren_search [] = None"
| "paren_search (c # cs) =
     (if c = CHR ''('' \<and> takeWhile not_paren cs \<noteq> []
         \<and> take 1 (dropWhile not_paren cs) = '')''
      then Some (takeWhile not_paren cs)
      else paren_search cs)"

section \<open>Mirror items and the item matcher (sync/item\_matcher.py)\<close>

text \<open>
  An entry of the OurGroceries item list is whatever the service returned: a dict, or something
  else. Of a dict the code reads the keys \<open>id\<close>, \<open>value\<close> and \<open>crossedOff\<close>; a missing \<open>id\<close> or
  \<open>value\<close> is \<open>None\<close> here, a missing \<open>crossedOff\<close> is \<open>False\<close> (\<open>og_item.get('crossedOff', False)\<close>).
\<close>

datatype og_entry =
    NotADict
  | OgItem (og_id: "string option") (og_value: "string option") (crossedOff: bool)

record item_matcher =
  name_mappings :: "string \<rightharpoonup> string"
  quantity_separator :: string

text \<open>
  A Grocy product name is \<open>None\<close> when the product has no \<open>name\<close> or the note is null.
  \<open>map_item_name\<close> returns its argument when it is not a key of the mapping, so \<open>None\<close> stays
  \<open>None\<close>.
\<close>

definition map_item_name :: "item_matcher \<Rightarrow> string option \<Rightarrow> string option" where
  "map_item_name m grocy_name =
     (case grocy_name of
        None \<Rightarrow> None
      | Some n \<Rightarrow> (case name_mappings m n of Some mapped \<Rightarrow> Some mapped | None \<Rightarrow> Some n))"

definition extract_base_name :: "item_matcher \<Rightarrow> string \<Rightarrow> error + string" where
  "extract_base_name m item_value =
     (let item_lower = lower item_value in
      case partition_first (quantity_separator m) item_lower of
        Some (before, rest) \<Rightarrow>
          if quantity_separator m = [] then Inl ValueError else Inr (strip before)
      | None \<Rightarrow>
          if CHR ''('' \<in> set item_lower
          then Inr (strip (takeWhile (\<lambda>c. c \<noteq> CHR ''('') item_lower))
          else Inr item_lower)"

fun find_loop :: "item_matcher \<Rightarrow> string \<Rightarrow> og_entry list \<Rightarrow> error + og_entry option" where
  "find_loop m og_item_name_lower [] = Inr None"
| "find_loop m og_item_name_lower (og_item # rest) =
     (case og_item of
        OgItem (Some i) (Some v) x \<Rightarrow>
          (case extract_base_name m v of
             Inl e \<Rightarrow> Inl e
           | Inr base_item_value \<Rightarrow>
               if og_item_name_lower = base_item_value then Inr (Some og_item)
               else find_loop m og_item_name_lower rest)
      | _ \<Rightarrow> find_loop m og_item_name_lower rest)"

definition find_matching_item ::
  "item_matcher \<Rightarrow> string option \<Rightarrow> og_entry list \<Rightarrow> error + og_entry option" where
  "find_matching_item m grocy_name og_items =
     (case map_item_name m grocy_name of
        None \<Rightarrow> Inl AttributeError
      | Some og_item_name \<Rightarrow> find_loop m (lower og_item_name) og_items)"

definition extract_existing_quantity :: "item_matcher \<Rightarrow> og_entry \<Rightarrow> error + string option" where
  "extract_existing_quantity m item =
     (case item of
        OgItem i (Some v) x \<Rightarrow>
          (case partition_first (quantity_separator m) v of
             Some (before, rest) \<Rightarrow>
               if quantity_separator m = [] then Inl ValueError else Inr (Some rest)
           | None \<Rightarrow> Inr (paren_search v))
      | _ \<Rightarrow> Inr None)"

definition normalized :: "string option \<Rightarrow> string" where
  "normalized q =
     (case q of
        None \<Rightarrow> []
      | Some s \<Rightarrow> if s = [] then [] else remove_spaces (lower s))"

definition has_quantity_changed :: "string option \<Rightarrow> string \<Rightarrow> bool" where
  "has_quantity_changed existing_quantity new_quantity =
     (if existing_quantity \<noteq> Some new_quantity
      then normalized existing_quantity \<noteq> normalized (Some new_quantity)
      else False)"

section \<open>The tracking ledger (utils/tracking.py)\<close>

text \<open>
  \<open>tracking_data\<close> is the dictionary under the key \<open>"lists"\<close>; \<open>saves\<close> counts the calls of
  \<open>_save_tracking_data\<close>, the only place that writes the backing file.
\<close>

record tracker =
  tracking_data :: "string \<rightharpoonup> string list"
  saves :: nat

definition save_tracking_data :: "tracker \<Rightarrow> tracker" where
  "save_tracking_data t = t\<lparr>saves := Suc (saves t)\<rparr>"

definition track_item :: "string \<Rightarrow> string \<Rightarrow> tracker \<Rightarrow> tracker" where
  "track_item list_id item_id t =
     (let t1 = (if list_id \<notin> dom (tracking_data t)
                then t\<lparr>tracking_data := (tracking_data t)(list_id \<mapsto> [])\<rparr> else t)
      in case tracking_data t1 list_id of
           None \<Rightarrow> t1
         | Some ids \<Rightarrow>
             if item_id \<notin> set ids
             then save_tracking_data (t1\<lparr>tracking_data := (tracking_data t1)(list_id \<mapsto> ids @ [item_id])\<rparr>)
             else t1)"

definition is_tracked_item :: "tracker \<Rightarrow> string \<Rightarrow> string \<Rightarrow> bool" where
  "is_tracked_item t list_id item_id =
     (case tracking_data t list_id of None \<Rightarrow> False | Some ids \<Rightarrow> item_id \<in> set ids)"

text \<open>\<open>list.remove(x)\<close> deletes the first element equal to \<open>x\<close>.\<close>

definition remove_tracking :: "string \<Rightarrow> string \<Rightarrow> tracker \<Rightarrow> tracker" where
  "remove_tracking list_id item_id t =
     (case tracking_data t list_id of
        None \<Rightarrow> t
      | Some ids \<Rightarrow>
          if item_id \<in> set ids
          then save_tracking_data (t\<lparr>tracking_data := (tracking_data t)(list_id \<mapsto> remove1 item_id ids)\<rparr>)
          else t)"

section \<open>Grocy shopping list items\<close>

text \<open>
  A shopping list item as \<open>GrocyClient.get_shopping_list_items\<close> returns it. \<open>done_flag\<close> is
  \<open>grocy_item.get('done', 0)\<close>; \<open>product_details\<close> is \<open>None\<close> when the key is missing or
  its value is empty (both make the test \<open>'product_details' in grocy_item and
  grocy_item['product_details']\<close> false); \<open>item_note\<close> (the key \<open>note\<close>) keeps apart a missing key (the default
  \<open>'Unknown item'\<close> applies) and a null value. Of the category of a product only its name is
  read, so \<open>category\<close> is that name, \<open>None\<close> when there is no category or it has no name.
  A conversion factor is \<open>conversion.get('factor', 1)\<close> passed to \<open>float\<close>: a number (or a
  string that reads as one), a null (\<open>TypeError\<close>) or a string that is no number
  (\<open>ValueError\<close>). Numbers are rationals here.
\<close>

datatype factor_field = FactorAbsent | FactorNumber rat | FactorNull | FactorNotNumeric

record conversion =
  from_qu_id :: "int option"
  to_qu_id :: "int option"
  factor :: factor_field

record product =
  name :: "string option"
  category :: "string option"
  qu_id_purchase :: "int option"
  qu_id_stock :: "int option"
  quantity_unit_conversions :: "conversion list option"

datatype note_field = NoteAbsent | NoteNull | NoteStr string

record grocy_item =
  done_flag :: int
  amount :: string
  qu_id :: "int option"
  product_details :: "product option"
  item_note :: note_field

section \<open>Conversion factors (sync/quantity\_formatter.py)\<close>

definition py_float :: "factor_field \<Rightarrow> error + rat" where
  "py_float f =
     (case f of
        FactorAbsent \<Rightarrow> Inr 1
      | FactorNumber r \<Rightarrow> Inr r
      | FactorNull \<Rightarrow> Inl TypeError
      | FactorNotNumeric \<Rightarrow> Inl ValueError)"

text \<open>The two \<open>for\<close> statements of \<open>_find_conversion_factor\<close>; \<open>None\<close> when one ends without a
  \<open>return\<close>.\<close>

fun direct_loop :: "conversion list \<Rightarrow> int option \<Rightarrow> int option \<Rightarrow> (error + rat) option" where
  "direct_loop [] from_id to_id = None"
| "direct_loop (c # cs) from_id to_id =
     (if from_qu_id c = from_id \<and> to_qu_id c = to_id
      then Some (py_float (factor c))
      else direct_loop cs from_id to_id)"

fun inverse_loop :: "conversion list \<Rightarrow> int option \<Rightarrow> int option \<Rightarrow> (error + rat) option" where
  "inverse_loop [] from_id to_id = None"
| "inverse_loop (c # cs) from_id to_id =
     (if from_qu_id c = to_id \<and> to_qu_id c = from_id
      then Some (case py_float (factor c) of
                   Inl e \<Rightarrow> Inl e
                 | Inr r \<Rightarrow> if r = 0 then Inl ZeroDivisionError else Inr (1 / r))
      else inverse_loop cs from_id to_id)"

definition find_conversion_factor ::
  "product \<Rightarrow> int option \<Rightarrow> int option \<Rightarrow> error + rat option" where
  "find_conversion_factor p from_id to_id =
     (case quantity_unit_conversions p of
        None \<Rightarrow> Inr None
      | Some conversions \<Rightarrow>
          (case direct_loop conversions from_id to_id of
             Some (Inl e) \<Rightarrow> Inl e
           | Some (Inr f) \<Rightarrow> Inr (Some f)
           | None \<Rightarrow>
               (case inverse_loop conversions from_id to_id of
                  Some (Inl e) \<Rightarrow> Inl e
                | Some (Inr f) \<Rightarrow> Inr (Some f)
                | None \<Rightarrow> Inr None)))"

section \<open>The OurGroceries client (clients/ourgroceries\_client.py)\<close>

text \<open>
  The remote service is reached through \<open>_run_with_retry\<close>; a call either returns or ends in
  \<open>OurGroceriesApiError\<close>, which the client turns into \<open>False\<close>. The service is a parameter:
  \<open>svc_remove\<close> and \<open>svc_add\<close> give the new remote state, \<open>None\<close> for the error; \<open>svc_add\<close> also
  gives the \<open>itemId\<close> of the response when there is one. \<open>svc_list_by_name\<close> is
  \<open>get_list_by_name\<close>: \<open>None\<close> when no list has the name, otherwise the \<open>id\<close> of the list
  (\<open>None\<close> when the dict has none). Category resolution happens inside the add call and is
  part of \<open>svc_add\<close>. The client keeps \<open>last_added_item\<close>; \<open>calls\<close> records the mutating
  requests sent to the service.
\<close>

datatype og_call =
    AddItem string string "string option"
  | RemoveItem string string

record 'r og_service =
  svc_list_by_name :: "'r \<Rightarrow> string \<Rightarrow> string option option"
  svc_items :: "'r \<Rightarrow> string \<Rightarrow> og_entry list"
  svc_add :: "'r \<Rightarrow> string \<Rightarrow> string \<Rightarrow> string option \<Rightarrow> ('r \<times> string option) option"
  svc_remove :: "'r \<Rightarrow> string \<Rightarrow> string \<Rightarrow> 'r option"

record 'r og_client =
  remote :: 'r
  last_added_item :: "string option"
  calls :: "og_call list"

definition add_item_to_list ::
  "'r og_service \<Rightarrow> string \<Rightarrow> 'r og_client \<Rightarrow> string \<Rightarrow> string \<Rightarrow> string \<Rightarrow> string option
     \<Rightarrow> bool \<times> 'r og_client" where
  "add_item_to_list svc separator c list_id item_name quantity cat =
     (let item_value = (if quantity \<noteq> [] then item_name @ separator @ quantity else item_name);
          c1 = c\<lparr>calls := calls c @ [AddItem list_id item_value cat]\<rparr>
      in case svc_add svc (remote c) list_id item_value cat of
           None \<Rightarrow> (False, c1)
         | Some (r, item_id) \<Rightarrow>
             (True, c1\<lparr>remote := r,
                       last_added_item :=
                         (case item_id of
                            Some i \<Rightarrow> if i \<noteq> [] then Some i else last_added_item c
                          | None \<Rightarrow> last_added_item c)\<rparr>))"

definition remove_item_from_list ::
  "'r og_service \<Rightarrow> 'r og_client \<Rightarrow> string \<Rightarrow> string \<Rightarrow> bool \<times> 'r og_client" where
  "remove_item_from_list svc c list_id item_id =
     (let c1 = c\<lparr>calls := calls c @ [RemoveItem list_id item_id]\<rparr>
      in case svc_remove svc (remote c) list_id item_id of
           None \<Rightarrow> (False, c1)
         | Some r \<Rightarrow> (True, c1\<lparr>remote := r\<rparr>))"

definition get_last_added_item_id :: "'r og_client \<Rightarrow> string option" where
  "get_last_added_item_id c = last_added_item c"

section \<open>Configuration and state of a synchronisation\<close>

record deletion_config =
  enabled :: bool
  dry_run :: bool
  respect_crossed_off :: bool
  preserve_manual_items :: bool

record sync_config =
  matcher :: item_matcher
  category_mappings :: "string \<rightharpoonup> string"
  use_categories :: bool
  deletion :: deletion_config

record 'r sync_state =
  client :: "'r og_client"
  tracker :: tracker

section \<open>The deletion manager (sync/deletion\_manager.py)\<close>

text \<open>The product name of an item, as \<open>process_deletions\<close> and \<open>_get_product_info\<close> both
  compute it.\<close>

definition product_name_of :: "grocy_item \<Rightarrow> string option" where
  "product_name_of g =
     (case product_details g of
        Some p \<Rightarrow> name p
      | None \<Rightarrow>
          (case item_note g of
             NoteAbsent \<Rightarrow> Some ''Unknown item''
           | NoteNull \<Rightarrow> None
           | NoteStr s \<Rightarrow> Some s))"

text \<open>The first loop of \<open>process_deletions\<close>. \<open>og_item_name.lower()\<close> raises
  \<open>AttributeError\<close> when the name is \<open>None\<close>.\<close>

fun grocy_product_names ::
  "item_matcher \<Rightarrow> grocy_item list \<Rightarrow> string set \<Rightarrow> error + string set" where
  "grocy_product_names m [] names = Inr names"
| "grocy_product_names m (g # gs) names =
     (if done_flag g = 1 then grocy_product_names m gs names
      else case map_item_name m (product_name_of g) of
             None \<Rightarrow> Inl AttributeError
           | Some og_item_name \<Rightarrow> grocy_product_names m gs (insert (lower og_item_name) names))"

text \<open>The second loop: the mirror items to remove, in the order of the snapshot.\<close>

fun items_to_remove ::
  "deletion_config \<Rightarrow> tracker \<Rightarrow> item_matcher \<Rightarrow> string \<Rightarrow> string set \<Rightarrow> og_entry list
     \<Rightarrow> og_entry list \<Rightarrow> error + og_entry list" where
  "items_to_remove d t m og_list_id names [] acc = Inr acc"
| "items_to_remove d t m og_list_id names (og_item # rest) acc =
     (case og_item of
        OgItem (Some i) (Some v) x \<Rightarrow>
          if respect_crossed_off d \<and> x then items_to_remove d t m og_list_id names rest acc
          else if preserve_manual_items d \<and> \<not> is_tracked_item t og_list_id i
          then items_to_remove d t m og_list_id names rest acc
          else (case extract_base_name m v of
                  Inl e \<Rightarrow> Inl e
                | Inr base_name \<Rightarrow>
                    if base_name \<notin> names
                    then items_to_remove d t m og_list_id names rest (acc @ [og_item])
                    else items_to_remove d t m og_list_id names rest acc)
      | _ \<Rightarrow> items_to_remove d t m og_list_id names rest acc)"

text \<open>The third loop. Every item of \<open>items_to_remove\<close> has an \<open>id\<close>; \<open>item['id']\<close> of an
  entry without one would raise, which is \<open>Inl\<close> here.\<close>

definition item_id_of :: "og_entry \<Rightarrow> error + string" where
  "item_id_of e =
     (case e of
        NotADict \<Rightarrow> Inl TypeError
      | OgItem None v x \<Rightarrow> Inl KeyError
      | OgItem (Some i) v x \<Rightarrow> Inr i)"

fun process_removals ::
  "'r og_service \<Rightarrow> deletion_config \<Rightarrow> string \<Rightarrow> og_entry list \<Rightarrow> 'r sync_state
     \<Rightarrow> error + 'r sync_state" where
  "process_removals svc d og_list_id [] st = Inr st"
| "process_removals svc d og_list_id (item # rest) st =
     (if dry_run d then process_removals svc d og_list_id rest st
      else case item_id_of item of
             Inl e \<Rightarrow> Inl e
           | Inr i \<Rightarrow>
               (case remove_item_from_list svc (client st) og_list_id i of
                  (True, c) \<Rightarrow>
                    process_removals svc d og_list_id rest
                      (st\<lparr>client := c, tracker := remove_tracking og_list_id i (tracker st)\<rparr>)
                | (False, c) \<Rightarrow>
                    process_removals svc d og_list_id rest (st\<lparr>client := c\<rparr>)))"

definition process_deletions ::
  "'r og_service \<Rightarrow> sync_config \<Rightarrow> string \<Rightarrow> grocy_item list \<Rightarrow> og_entry list
     \<Rightarrow> 'r sync_state \<Rightarrow> error + 'r sync_state" where
  "process_deletions svc cfg og_list_id grocy_items og_items st =
     (if \<not> enabled (deletion cfg) then Inr st
      else case grocy_product_names (matcher cfg) grocy_items {} of
             Inl e \<Rightarrow> Inl e
           | Inr names \<Rightarrow>
               (case items_to_remove (deletion cfg) (tracker st) (matcher cfg) og_list_id names
                       og_items [] of
                  Inl e \<Rightarrow> Inl e
                | Inr to_remove \<Rightarrow> process_removals svc (deletion cfg) og_list_id to_remove st))"

text \<open>The items that \<open>process_deletions\<close> marks: what its first two \<open>for\<close> statements compute, nothing
  when deletion is disabled.\<close>

definition marked_for_removal ::
  "sync_config \<Rightarrow> tracker \<Rightarrow> string \<Rightarrow> grocy_item list \<Rightarrow> og_entry list \<Rightarrow> error + og_entry list" where
  "marked_for_removal cfg t og_list_id grocy_items og_items =
     (if \<not> enabled (deletion cfg) then Inr []
      else case grocy_product_names (matcher cfg) grocy_items {} of
             Inl e \<Rightarrow> Inl e
           | Inr names \<Rightarrow>
               items_to_remove (deletion cfg) t (matcher cfg) og_list_id names og_items [])"

section \<open>The sync manager (sync/sync\_manager.py)\<close>

definition map_category_name :: "sync_config \<Rightarrow> string \<Rightarrow> string" where
  "map_category_name cfg grocy_category =
     (case category_mappings cfg grocy_category of Some c \<Rightarrow> c | None \<Rightarrow> grocy_category)"

definition get_product_info :: "sync_config \<Rightarrow> grocy_item \<Rightarrow> string option \<times> string option" where
  "get_product_info cfg g =
     (product_name_of g,
      case product_details g of
        Some p \<Rightarrow>
          (case category p of
             Some grocy_category \<Rightarrow>
               if use_categories cfg \<and> grocy_category \<noteq> []
               then Some (map_category_name cfg grocy_category) else None
           | None \<Rightarrow> None)
      | None \<Rightarrow> None)"

definition add_and_track ::
  "'r og_service \<Rightarrow> sync_config \<Rightarrow> string \<Rightarrow> string \<Rightarrow> string \<Rightarrow> string option
     \<Rightarrow> 'r sync_state \<Rightarrow> 'r sync_state" where
  "add_and_track svc cfg og_list_id og_item_name quantity_str category_name st =
     (case add_item_to_list svc (quantity_separator (matcher cfg)) (client st) og_list_id
             og_item_name quantity_str category_name of
        (True, c) \<Rightarrow>
          (case get_last_added_item_id c of
             Some item_id \<Rightarrow>
               st\<lparr>client := c, tracker := track_item og_list_id item_id (tracker st)\<rparr>
           | None \<Rightarrow> st\<lparr>client := c\<rparr>)
      | (False, c) \<Rightarrow> st\<lparr>client := c\<rparr>)"

definition add_new_item ::
  "'r og_service \<Rightarrow> sync_config \<Rightarrow> string \<Rightarrow> string \<Rightarrow> string \<Rightarrow> string option
     \<Rightarrow> 'r sync_state \<Rightarrow> 'r sync_state" where
  "add_new_item svc cfg og_list_id og_item_name quantity_str category_name st =
     add_and_track svc cfg og_list_id og_item_name quantity_str category_name st"

definition update_existing_item ::
  "'r og_service \<Rightarrow> sync_config \<Rightarrow> og_entry \<Rightarrow> string \<Rightarrow> string \<Rightarrow> string option \<Rightarrow> string
     \<Rightarrow> 'r sync_state \<Rightarrow> error + 'r sync_state" where
  "update_existing_item svc cfg existing_item og_item_name quantity_str category_name og_list_id st =
     (case extract_existing_quantity (matcher cfg) existing_item of
        Inl e \<Rightarrow> Inl e
      | Inr existing_quantity \<Rightarrow>
          if has_quantity_changed existing_quantity quantity_str
          then (case item_id_of existing_item of
                  Inl e \<Rightarrow> Inl e
                | Inr i \<Rightarrow>
                    (case remove_item_from_list svc (client st) og_list_id i of
                       (True, c) \<Rightarrow>
                         Inr (add_and_track svc cfg og_list_id og_item_name quantity_str
                                category_name (st\<lparr>client := c\<rparr>))
                     | (False, c) \<Rightarrow> Inr (st\<lparr>client := c\<rparr>)))
          else Inr st)"

text \<open>
  \<open>format_quantity\<close> computes the quantity string of an item on floating-point numbers; the
  sync manager only passes the string on, so the formatter is the parameter \<open>fmt\<close> here, with
  \<open>Inl\<close> for an exception that leaves it.
\<close>

definition process_grocy_item ::
  "'r og_service \<Rightarrow> (grocy_item \<Rightarrow> error + string) \<Rightarrow> sync_config \<Rightarrow> grocy_item \<Rightarrow> string
     \<Rightarrow> og_entry list \<Rightarrow> 'r sync_state \<Rightarrow> error + 'r sync_state" where
  "process_grocy_item svc fmt cfg g og_list_id og_items st =
     (case get_product_info cfg g of
        (product_name, category_name) \<Rightarrow>
          (case fmt g of
             Inl e \<Rightarrow> Inl e
           | Inr quantity_str \<Rightarrow>
               (case find_matching_item (matcher cfg) product_name og_items of
                  Inl e \<Rightarrow> Inl e
                | Inr existing \<Rightarrow>
                    (case map_item_name (matcher cfg) product_name of
                       None \<Rightarrow> Inl AttributeError
                     | Some og_item_name \<Rightarrow>
                         (case existing of
                            Some existing_item \<Rightarrow>
                              update_existing_item svc cfg existing_item og_item_name
                                quantity_str category_name og_list_id st
                          | None \<Rightarrow>
                              Inr (add_new_item svc cfg og_list_id og_item_name quantity_str
                                     category_name st))))))"

text \<open>The loop over the Grocy items: an exception ends it, with the state reached so far.\<close>

fun process_items ::
  "'r og_service \<Rightarrow> (grocy_item \<Rightarrow> error + string) \<Rightarrow> sync_config \<Rightarrow> string \<Rightarrow> og_entry list
     \<Rightarrow> grocy_item list \<Rightarrow> 'r sync_state \<Rightarrow> 'r sync_state \<times> error option" where
  "process_items svc fmt cfg og_list_id og_items [] st = (st, None)"
| "process_items svc fmt cfg og_list_id og_items (g # gs) st =
     (if done_flag g = 1 then process_items svc fmt cfg og_list_id og_items gs st
      else case process_grocy_item svc fmt cfg g og_list_id og_items st of
             Inl e \<Rightarrow> (st, Some e)
           | Inr st1 \<Rightarrow> process_items svc fmt cfg og_list_id og_items gs st1)"

text \<open>
  \<open>sync_list\<close>, from the items that \<open>get_shopping_list_items\<close> returned. The result is the
  returned flag and the state afterwards; every exception is caught and gives \<open>False\<close>.
\<close>

definition sync_list ::
  "'r og_service \<Rightarrow> (grocy_item \<Rightarrow> error + string) \<Rightarrow> sync_config \<Rightarrow> grocy_item list \<Rightarrow> string
     \<Rightarrow> 'r sync_state \<Rightarrow> bool \<times> 'r sync_state" where
  "sync_list svc fmt cfg grocy_items ourgroceries_list_name st =
     (if grocy_items = [] then (True, st)
      else case svc_list_by_name svc (remote (client st)) ourgroceries_list_name of
             None \<Rightarrow> (False, st)
           | Some None \<Rightarrow> (False, st)
           | Some (Some og_list_id) \<Rightarrow>
               (let og_items = svc_items svc (remote (client st)) og_list_id in
                case process_items svc fmt cfg og_list_id og_items grocy_items st of
                  (st1, Some e) \<Rightarrow> (False, st1)
                | (st1, None) \<Rightarrow>
                    (case process_deletions svc cfg og_list_id grocy_items og_items st1 of
                       Inl e \<Rightarrow> (False, st1)
                     | Inr st2 \<Rightarrow> (True, st2))))"

section \<open>Reference definitions for the deletion policy and the mirror\<close>



text \<open>
  Modelled from the spec: the OurGroceries service is an external system, known here only by
  the interface of section 6 (\<open>addItem\<close>, \<open>removeItem\<close>, \<open>fetchListItems\<close>, \<open>listByName\<close>).
  \<open>ideal_service\<close> is a service on which every call succeeds: its state is the item list of
  the one list it holds, adding appends an item with an id that no item has yet and reports
  that id, removing deletes the items with the given id.
\<close>

definition id_length :: "og_entry \<Rightarrow> nat" where
  "id_length e = (case e of OgItem (Some i) v x \<Rightarrow> length i | _ \<Rightarrow> 0)"

definition fresh_id :: "og_entry list \<Rightarrow> string" where
  "fresh_id r = replicate (Suc (foldr max (map id_length r) 0)) (CHR ''n'')"

definition has_id :: "string \<Rightarrow> og_entry \<Rightarrow> bool" where
  "has_id i e = (case e of OgItem (Some j) v x \<Rightarrow> j = i | _ \<Rightarrow> False)"

definition ideal_service :: "og_entry list og_service" where
  "ideal_service =
     \<lparr>svc_list_by_name = (\<lambda>r list_name. Some (Some list_name)),
      svc_items = (\<lambda>r list_id. r),
      svc_add = (\<lambda>r list_id item_value cat.
                   Some (r @ [OgItem (Some (fresh_id r)) (Some item_value) False],
                         Some (fresh_id r))),
      svc_remove = (\<lambda>r list_id item_id. Some (filter (\<lambda>e. \<not> has_id item_id e) r))\<rparr>"

section \<open>Scenarios\<close>


definition guard_config :: "bool \<Rightarrow> sync_config" where
  "guard_config on =
     \<lparr>matcher = \<lparr>name_mappings = Map.empty, quantity_separator = '' : ''\<rparr>,
      category_mappings = Map.empty, use_categories = True,
      deletion = \<lparr>enabled = on, dry_run = False, respect_crossed_off = True,
                  preserve_manual_items = False\<rparr>\<rparr>"

definition empty_tracker :: tracker where
  "empty_tracker = \<lparr>tracking_data = Map.empty, saves = 0\<rparr>"

definition water_state :: "og_entry list sync_state" where
  "water_state =
     \<lparr>client = \<lparr>remote = [OgItem (Some ''i1'') (Some ''Water : 3 Bottles'') False],
                 last_added_item = None, calls = []\<rparr>,
      tracker = empty_tracker\<rparr>"







section \<open>Notions for the idempotence of a pass\<close>

text \<open>The value that \<open>add_item_to_list\<close> sends for a name and a quantity string.\<close>

definition new_value :: "string \<Rightarrow> string \<Rightarrow> string \<Rightarrow> string" where
  "new_value sep n q = (if q \<noteq> [] then n @ sep @ q else n)"













section \<open>Quantity comparison\<close>

lemma normalized_Some: "normalized (Some s) = remove_spaces (lower s)"
  by (simp add: normalized_def remove_spaces_def lower_def)

text \<open>
  C6. \<open>has_quantity_changed a b\<close> is false exactly when \<open>a\<close> (with \<open>None\<close> read as the empty
  string) and \<open>b\<close> are equal after lower-casing and removing every space; so it is false for
  \<open>("1 Gallon", "1gallon")\<close> and true for \<open>("1 gallon", "2 gallons")\<close>.
\<close>

theorem has_quantity_changed_iff:
  "has_quantity_changed a b =
     (remove_spaces (lower (case a of None \<Rightarrow> [] | Some s \<Rightarrow> s)) \<noteq> remove_spaces (lower b))
   \<and> has_quantity_changed (Some ''1 Gallon'') ''1gallon'' = False
   \<and> has_quantity_changed (Some ''1 gallon'') ''2 gallons'' = True"
proof -
  have gen: "has_quantity_changed a b =
     (remove_spaces (lower (case a of None \<Rightarrow> [] | Some s \<Rightarrow> s)) \<noteq> remove_spaces (lower b))"
  proof (cases a)
    case None
    then show ?thesis
      by (simp add: has_quantity_changed_def normalized_Some)
         (simp add: normalized_def remove_spaces_def lower_def)
  next
    case (Some s)
    then show ?thesis
      by (auto simp add: has_quantity_changed_def normalized_Some)
  qed
  have e1: "has_quantity_changed (Some ''1 Gallon'') ''1gallon'' = False"
    by (simp add: has_quantity_changed_def normalized_Some remove_spaces_def lower_def lower_char_def char_of_def bit_Suc_0_iff)
  have e2: "has_quantity_changed (Some ''1 gallon'') ''2 gallons'' = True"
    by (simp add: has_quantity_changed_def normalized_Some remove_spaces_def lower_def lower_char_def char_of_def bit_Suc_0_iff)
  from gen e1 e2 show ?thesis by blast
qed

section \<open>Ledger writes\<close>

lemma track_item_tracked: "is_tracked_item (track_item L I t) L I"
  by (auto simp add: track_item_def is_tracked_item_def save_tracking_data_def Let_def
      split: option.splits)

lemma track_item_already: "is_tracked_item t L I \<Longrightarrow> track_item L I t = t"
  by (auto simp add: track_item_def is_tracked_item_def Let_def split: option.splits)

lemma track_item_saves:
  "(saves (track_item L I t) = saves t) = (tracking_data (track_item L I t) = tracking_data t)"
proof (cases "is_tracked_item t L I")
  case True
  then show ?thesis by (simp add: track_item_already)
next
  case False
  have "is_tracked_item (track_item L I t) L I" by (rule track_item_tracked)
  with False have neq: "tracking_data (track_item L I t) \<noteq> tracking_data t"
    by (auto simp add: is_tracked_item_def)
  from False have "saves (track_item L I t) = Suc (saves t)"
    by (auto simp add: track_item_def is_tracked_item_def save_tracking_data_def Let_def
        split: option.splits)
  with neq show ?thesis by simp
qed

lemma remove_tracking_saves:
  "(saves (remove_tracking L I t) = saves t) =
     (tracking_data (remove_tracking L I t) = tracking_data t)"
proof (cases "is_tracked_item t L I")
  case False
  then show ?thesis
    by (auto simp add: remove_tracking_def is_tracked_item_def split: option.splits)
next
  case True
  then obtain ids where ids: "tracking_data t L = Some ids" "I \<in> set ids"
    by (auto simp add: is_tracked_item_def split: option.splits)
  have len: "length (remove1 I ids) \<noteq> length ids"
    using ids(2) by (simp add: length_remove1) (cases ids; simp)
  from ids have r: "remove_tracking L I t =
      save_tracking_data (t\<lparr>tracking_data := (tracking_data t)(L \<mapsto> remove1 I ids)\<rparr>)"
    by (simp add: remove_tracking_def)
  have "tracking_data (remove_tracking L I t) L = Some (remove1 I ids)"
    by (simp add: r save_tracking_data_def)
  with ids(1) len have "tracking_data (remove_tracking L I t) \<noteq> tracking_data t"
    by (metis option.inject)
  moreover have "saves (remove_tracking L I t) = Suc (saves t)"
    by (simp add: r save_tracking_data_def)
  ultimately show ?thesis by simp
qed

text \<open>
  C9. After \<open>track_item L I\<close> the id is tracked; \<open>track_item\<close> and \<open>remove_tracking\<close> call
  \<open>_save_tracking_data\<close> exactly when they change the in-memory dictionary; and tracking an id
  that is already recorded for the list returns the tracker as it was: same dictionary, no
  write.
\<close>

theorem track_item_idempotent:
  "is_tracked_item (track_item L I t) L I
   \<and> (saves (track_item L I t) = saves t) = (tracking_data (track_item L I t) = tracking_data t)
   \<and> (saves (remove_tracking L I t) = saves t)
       = (tracking_data (remove_tracking L I t) = tracking_data t)
   \<and> (is_tracked_item t L I \<longrightarrow> track_item L I t = t)"
  using track_item_tracked [of L I t] track_item_saves [of L I t]
    remove_tracking_saves [of L I t] track_item_already [of t L I]
  by blast

theorem track_item_idempotent_witness:
  "is_tracked_item \<lparr>tracking_data = [''L1'' \<mapsto> [''i1'']], saves = 0\<rparr> ''L1'' ''i1''
   \<and> track_item ''L1'' ''i1'' \<lparr>tracking_data = [''L1'' \<mapsto> [''i1'']], saves = 0\<rparr>
       = \<lparr>tracking_data = [''L1'' \<mapsto> [''i1'']], saves = 0\<rparr>"
  using track_item_idempotent
    [of "''L1''" "''i1''" "\<lparr>tracking_data = [''L1'' \<mapsto> [''i1'']], saves = 0\<rparr>"]
  by (simp add: is_tracked_item_def)

section \<open>Conversion factor lookup\<close>

text \<open>
  C3. The lookup is expected never to raise and to answer "no conversion" when only the inverse
  entry exists and its factor is zero. On a product whose only conversion goes from unit 2 to
  unit 1 with factor 0, the lookup from unit 1 to unit 2 takes the inverse branch and raises
  \<open>ZeroDivisionError\<close>; with the factor missing it returns the factor 1.
\<close>

theorem find_conversion_factor_zero_inverse:
  "find_conversion_factor
     \<lparr>name = Some ''Water'', category = None, qu_id_purchase = Some 2, qu_id_stock = Some 1,
      quantity_unit_conversions =
        Some [\<lparr>from_qu_id = Some 2, to_qu_id = Some 1, factor = FactorNumber 0\<rparr>]\<rparr>
     (Some 1) (Some 2) = Inl ZeroDivisionError
   \<and> find_conversion_factor
     \<lparr>name = Some ''Water'', category = None, qu_id_purchase = Some 2, qu_id_stock = Some 1,
      quantity_unit_conversions =
        Some [\<lparr>from_qu_id = Some 2, to_qu_id = Some 1, factor = FactorAbsent\<rparr>]\<rparr>
     (Some 1) (Some 2) = Inr (Some 1)"
  by (simp add: find_conversion_factor_def py_float_def)

section \<open>Base name and quantity of a mirror value\<close>

text \<open>
  C5. For a value that contains the separator, the base name is expected to be the lower-cased
  text before the first separator and the quantity the text after it. With the separator
  \<open>" X "\<close> and the value \<open>"Milk X 2"\<close> the quantity is \<open>"2"\<close>, but \<open>extract_base_name\<close> looks
  for the separator in the lower-cased value, does not find it, and returns the whole value
  \<open>"milk x 2"\<close> instead of \<open>"milk"\<close>.
\<close>

theorem extract_base_name_uppercase_separator:
  "extract_base_name \<lparr>name_mappings = Map.empty, quantity_separator = '' X ''\<rparr> ''Milk X 2''
     = Inr ''milk x 2''
   \<and> extract_existing_quantity \<lparr>name_mappings = Map.empty, quantity_separator = '' X ''\<rparr>
       (OgItem (Some ''i1'') (Some ''Milk X 2'') False) = Inr (Some ''2'')"
  by (simp add: extract_base_name_def extract_existing_quantity_def lower_def lower_char_def char_of_def bit_Suc_0_iff
      Let_def)

section \<open>Empty source list\<close>

text \<open>
  C10. When the source fetch returns no item, \<open>sync_list\<close> returns \<open>True\<close> at once: the
  state afterwards is the state before, so no request was sent to the mirror, nothing was
  removed and the ledger is as it was, whatever the configuration and the mirror hold.
\<close>

theorem sync_list_empty_source:
  "sync_list svc fmt cfg [] ourgroceries_list_name st = (True, st)"
  by (simp add: sync_list_def)

section \<open>Deletion policy\<close>








lemma process_deletions_marked:
  "process_deletions svc cfg og_list_id grocy_items og_items st =
     (case marked_for_removal cfg (tracker st) og_list_id grocy_items og_items of
        Inl e \<Rightarrow> Inl e
      | Inr to_remove \<Rightarrow> process_removals svc (deletion cfg) og_list_id to_remove st)"
  by (simp add: process_deletions_def marked_for_removal_def split: sum.splits)





section \<open>Updating a matched item\<close>

text \<open>
  C4. \<open>_update_existing_item\<close> on a matched item (it has an id, its quantity can be read):
  when the quantity is unchanged the state is returned as it is, no request and no ledger
  change; when it changed, the remove request is sent first; if it fails nothing else is sent
  and the ledger is unchanged; if it succeeds the add request for the new value follows, and
  the ledger is unchanged when the add fails, and records an id (the one of the response, or
  the last one the client knows) only when the add succeeded. No other request is sent.
\<close>

theorem update_existing_item_cases:
  assumes q: "extract_existing_quantity (matcher cfg) existing_item = Inr q"
    and i: "item_id_of existing_item = Inr i"
  shows "\<exists>st1. update_existing_item svc cfg existing_item og_item_name quantity_str cat L st
            = Inr st1
     \<and> (let new_value = (if quantity_str \<noteq> []
                          then og_item_name @ quantity_separator (matcher cfg) @ quantity_str
                          else og_item_name);
             known = (case last_added_item (client st) of
                        Some old \<Rightarrow> track_item L old (tracker st)
                      | None \<Rightarrow> tracker st)
         in if \<not> has_quantity_changed q quantity_str then st1 = st
            else case svc_remove svc (remote (client st)) L i of
                   None \<Rightarrow>
                     calls (client st1) = calls (client st) @ [RemoveItem L i]
                     \<and> remote (client st1) = remote (client st)
                     \<and> tracker st1 = tracker st
                 | Some r \<Rightarrow>
                     calls (client st1)
                       = calls (client st) @ [RemoveItem L i, AddItem L new_value cat]
                     \<and> (case svc_add svc r L new_value cat of
                           None \<Rightarrow> remote (client st1) = r \<and> tracker st1 = tracker st
                         | Some (r1, new_id) \<Rightarrow>
                             remote (client st1) = r1
                             \<and> tracker st1 =
                                 (case new_id of
                                    Some n \<Rightarrow> if n \<noteq> [] then track_item L n (tracker st) else known
                                  | None \<Rightarrow> known)))"
  using q i
  by (auto simp add: update_existing_item_def add_and_track_def add_item_to_list_def
      remove_item_from_list_def get_last_added_item_id_def Let_def
      split: option.splits prod.splits bool.splits)

theorem update_existing_item_cases_witness:
  "extract_existing_quantity (matcher (guard_config True))
      (OgItem (Some ''i1'') (Some ''Water : 3 Bottles'') False) = Inr (Some ''3 Bottles'')
   \<and> item_id_of (OgItem (Some ''i1'') (Some ''Water : 3 Bottles'') False) = Inr ''i1''
   \<and> update_existing_item ideal_service (guard_config True)
        (OgItem (Some ''i1'') (Some ''Water : 3 Bottles'') False) ''Water'' ''4 Bottles'' None
        ''L1'' water_state
      = Inr \<lparr>client = \<lparr>remote = [OgItem (Some ''n'') (Some ''Water : 4 Bottles'') False],
                        last_added_item = Some ''n'',
                        calls = [RemoveItem ''L1'' ''i1'',
                                 AddItem ''L1'' ''Water : 4 Bottles'' None]\<rparr>,
             tracker = \<lparr>tracking_data = [''L1'' \<mapsto> [''n'']], saves = 1\<rparr>\<rparr>"
  using update_existing_item_cases [of "guard_config True"
      "OgItem (Some ''i1'') (Some ''Water : 3 Bottles'') False" "Some ''3 Bottles''" "''i1''"
      ideal_service "''Water''" "''4 Bottles''" None "''L1''" water_state]
  by (simp add: update_existing_item_def add_and_track_def add_item_to_list_def
      remove_item_from_list_def get_last_added_item_id_def Let_def
      extract_existing_quantity_def item_id_of_def guard_config_def water_state_def
      ideal_service_def has_quantity_changed_def normalized_def remove_spaces_def lower_def
      lower_char_def char_of_def bit_Suc_0_iff fresh_id_def id_length_def has_id_def track_item_def empty_tracker_def
      save_tracking_data_def)

section \<open>Idempotence of a pass\<close>

subsection \<open>Names and quantities survive the round trip through a mirror value\<close>











subsection \<open>One source item on a mirror that never fails\<close>



lemma has_id_item_id: "has_id i e \<Longrightarrow> item_id_of e = Inr i"
  by (auto simp add: item_id_of_def has_id_def split: og_entry.splits option.splits)











subsection \<open>The loop invariant\<close>









subsection \<open>Deletions and the second pass\<close>

















end
